theory Spec2Isabelle
  imports Main "HOL-Library.Word"
begin

section \<open>Typed configuration values: a model of cfg\_template\<close>

text \<open>
  The development follows \<^verbatim>\<open>cfg_template.hpp\<close> and \<^verbatim>\<open>example.cpp\<close>: the class
  hierarchy below \<^verbatim>\<open>AbstractCV\<close> is a datatype with one constructor per subclass, the
  virtual methods are functions by cases on it, the template parameter \<^verbatim>\<open>IntType\<close> is a
  tag on a word of the right width, exceptions are the left summand of a sum type and the
  registry is a record whose map is passed through every call that can touch it.
  The atomic cell of the updatable variant is read and written sequentially here.
\<close>

subsection \<open>Exceptions\<close>

text \<open>
  \<^verbatim>\<open>std::runtime_error\<close> carries its message; \<^verbatim>\<open>std::invalid_argument\<close> and
  \<^verbatim>\<open>std::out_of_range\<close> are the two exceptions of \<^verbatim>\<open>std::stoi\<close>. Dereferencing the
  null \<^verbatim>\<open>shared_ptr\<close> that \<^verbatim>\<open>operator[]\<close> inserts for an absent key has no defined
  behaviour in C++; the model gives it an error value of its own.
\<close>

datatype error =
    RuntimeError string
  | InvalidArgument
  | OutOfRange
  | NullDereference

subsection \<open>Integer types and conversions between them\<close>

datatype int_type =
    Int8 | Int16 | Int32 | Int64
  | UInt8 | UInt16 | UInt32 | UInt64

text \<open>A value of one of the integer types: the tag is \<^verbatim>\<open>IntType\<close>, the word its bits.\<close>

datatype int_val =
    VInt8 "8 word" | VInt16 "16 word" | VInt32 "32 word" | VInt64 "64 word"
  | VUInt8 "8 word" | VUInt16 "16 word" | VUInt32 "32 word" | VUInt64 "64 word"

fun type_of :: "int_val \<Rightarrow> int_type" where
  "type_of (VInt8 w) = Int8"
| "type_of (VInt16 w) = Int16"
| "type_of (VInt32 w) = Int32"
| "type_of (VInt64 w) = Int64"
| "type_of (VUInt8 w) = UInt8"
| "type_of (VUInt16 w) = UInt16"
| "type_of (VUInt32 w) = UInt32"
| "type_of (VUInt64 w) = UInt64"

fun bits :: "int_type \<Rightarrow> nat" where
  "bits Int8 = 8"
| "bits Int16 = 16"
| "bits Int32 = 32"
| "bits Int64 = 64"
| "bits UInt8 = 8"
| "bits UInt16 = 16"
| "bits UInt32 = 32"
| "bits UInt64 = 64"

text \<open>The number a value denotes: two's complement for the signed types.\<close>

fun int_of_val :: "int_val \<Rightarrow> int" where
  "int_of_val (VInt8 w) = sint w"
| "int_of_val (VInt16 w) = sint w"
| "int_of_val (VInt32 w) = sint w"
| "int_of_val (VInt64 w) = sint w"
| "int_of_val (VUInt8 w) = uint w"
| "int_of_val (VUInt16 w) = uint w"
| "int_of_val (VUInt32 w) = uint w"
| "int_of_val (VUInt64 w) = uint w"

text \<open>
  Conversion of an integer to \<^verbatim>\<open>IntType\<close>, implicit or by \<^verbatim>\<open>static_cast\<close>: the low
  bits are kept.
\<close>

fun from_int :: "int_type \<Rightarrow> int \<Rightarrow> int_val" where
  "from_int Int8 n = VInt8 (word_of_int n)"
| "from_int Int16 n = VInt16 (word_of_int n)"
| "from_int Int32 n = VInt32 (word_of_int n)"
| "from_int Int64 n = VInt64 (word_of_int n)"
| "from_int UInt8 n = VUInt8 (word_of_int n)"
| "from_int UInt16 n = VUInt16 (word_of_int n)"
| "from_int UInt32 n = VUInt32 (word_of_int n)"
| "from_int UInt64 n = VUInt64 (word_of_int n)"

subsection \<open>The C and C++ library functions the code calls\<close>

text \<open>\<^verbatim>\<open>::toupper\<close> in the C locale: the letters a to z move to A to Z, every other byte stays.\<close>

definition islower :: "char \<Rightarrow> bool" where
  "islower c = (97 \<le> (of_char c :: nat) \<and> (of_char c :: nat) \<le> 122)"

definition toupper :: "char \<Rightarrow> char" where
  "toupper c = (if islower c then char_of ((of_char c :: nat) - 32) else c)"

definition isspace :: "char \<Rightarrow> bool" where
  "isspace c = ((of_char c :: nat) = 32 \<or> (9 \<le> (of_char c :: nat) \<and> (of_char c :: nat) \<le> 13))"

definition isdigit :: "char \<Rightarrow> bool" where
  "isdigit c = (48 \<le> (of_char c :: nat) \<and> (of_char c :: nat) \<le> 57)"

definition digit_val :: "char \<Rightarrow> int" where
  "digit_val c = int (of_char c) - 48"

fun dec_val :: "int \<Rightarrow> string \<Rightarrow> int" where
  "dec_val acc [] = acc"
| "dec_val acc (c # cs) = dec_val (10 * acc + digit_val c) cs"

text \<open>
  \<^verbatim>\<open>std::stoi(str)\<close> with base 10: white space is skipped, one sign is read, then the
  longest run of digits; what follows the digits is not looked at. No digit raises
  \<^verbatim>\<open>std::invalid_argument\<close>, a number that is not an \<^verbatim>\<open>int\<close> raises
  \<^verbatim>\<open>std::out_of_range\<close>.
\<close>

fun strip_sign :: "string \<Rightarrow> bool \<times> string" where
  "strip_sign [] = (False, [])"
| "strip_sign (c # cs) =
     (if c = CHR ''-'' then (True, cs)
      else if c = CHR ''+'' then (False, cs)
      else (False, c # cs))"

definition stoi :: "string \<Rightarrow> error + 32 word" where
  "stoi str =
     (case strip_sign (dropWhile isspace str) of
        (neg, rest) \<Rightarrow>
          (case takeWhile isdigit rest of
             [] \<Rightarrow> Inl InvalidArgument
           | d # ds \<Rightarrow>
               (let n = (if neg then - dec_val 0 (d # ds) else dec_val 0 (d # ds))
                in if n < - (2 ^ 31) \<or> 2 ^ 31 \<le> n then Inl OutOfRange
                   else Inr (word_of_int n))))"

text \<open>\<^verbatim>\<open>std::to_string\<close> of an integer: its decimal digits, a minus sign before a negative one.\<close>

definition digit_char :: "nat \<Rightarrow> char" where
  "digit_char d = ''0123456789'' ! d"

fun digits_of :: "nat \<Rightarrow> string" where
  "digits_of n =
     (if n < 10 then [digit_char n]
      else digits_of (n div 10) @ [digit_char (n mod 10)])"

declare digits_of.simps [simp del]

definition to_string :: "int \<Rightarrow> string" where
  "to_string n = (if n < 0 then CHR ''-'' # digits_of (nat (- n)) else digits_of (nat n))"

subsection \<open>strToBool\<close>

definition strToBool :: "string \<Rightarrow> bool" where
  "strToBool in_str =
     (let upStr = map toupper in_str
      in if upStr = ''0'' \<or> upStr = ''FALSE'' \<or> upStr = ''OFF'' then False else True)"

subsection \<open>AbstractCV and its subclasses\<close>

text \<open>
  Each constructor takes its arguments in the order of the C++ constructor: the value,
  the key, the help text.
\<close>

datatype AbstractCV =
    IntReadOnlyCV int_val string string
  | IntUpdatableCV int_val string string
  | BoolReadOnlyCV bool string string
  | StrReadOnlyCV string string string

fun help_cv :: "AbstractCV \<Rightarrow> string" where
  "help_cv (IntReadOnlyCV v k h) = h"
| "help_cv (IntUpdatableCV v k h) = h"
| "help_cv (BoolReadOnlyCV b k h) = h"
| "help_cv (StrReadOnlyCV s k h) = h"

fun key :: "AbstractCV \<Rightarrow> string" where
  "key (IntReadOnlyCV v k h) = k"
| "key (IntUpdatableCV v k h) = k"
| "key (BoolReadOnlyCV b k h) = k"
| "key (StrReadOnlyCV s k h) = k"

fun asStr :: "AbstractCV \<Rightarrow> string" where
  "asStr (IntReadOnlyCV v k h) = to_string (int_of_val v)"
| "asStr (IntUpdatableCV v k h) = to_string (int_of_val v)"
| "asStr (BoolReadOnlyCV b k h) = (if b then ''true'' else ''false'')"
| "asStr (StrReadOnlyCV s k h) = s"

fun asInt :: "AbstractCV \<Rightarrow> error + 64 word" where
  "asInt (IntReadOnlyCV v k h) = Inr (word_of_int (int_of_val v))"
| "asInt (IntUpdatableCV v k h) = Inr (word_of_int (int_of_val v))"
| "asInt (BoolReadOnlyCV b k h) = Inr (if b then 1 else 0)"
| "asInt (StrReadOnlyCV s k h) =
     (case stoi s of Inl e \<Rightarrow> Inl e | Inr w \<Rightarrow> Inr (word_of_int (sint w)))"

fun asBool :: "AbstractCV \<Rightarrow> bool" where
  "asBool (IntReadOnlyCV v k h) = (if int_of_val v \<noteq> 0 then True else False)"
| "asBool (IntUpdatableCV v k h) = (if int_of_val v \<noteq> 0 then True else False)"
| "asBool (BoolReadOnlyCV b k h) = b"
| "asBool (StrReadOnlyCV s k h) = strToBool s"

text \<open>
  \<^verbatim>\<open>set\<close>: the base class throws, \<^verbatim>\<open>IntUpdatableCV\<close> overrides it. The result is the
  object after the call, or the exception; an exception leaves the object as it was.
\<close>

definition read_only_message :: string where
  "read_only_message = ''Read-only config value.  Set is not supported: ''"

fun set_cv :: "AbstractCV \<Rightarrow> string \<Rightarrow> error + AbstractCV" where
  "set_cv (IntUpdatableCV v k h) s =
     (case stoi s of
        Inl e \<Rightarrow> Inl e
      | Inr w \<Rightarrow> Inr (IntUpdatableCV (from_int (type_of v) (sint w)) k h))"
| "set_cv cv s = Inl (RuntimeError (read_only_message @ key cv))"

subsection \<open>CVFactory\<close>

datatype CVFactory = CVFactory (mOverrides: "string \<rightharpoonup> string")

text \<open>The three overloads of \<^verbatim>\<open>resolveVal\<close>: integer template, string, bool.\<close>

definition resolveVal_int :: "CVFactory \<Rightarrow> string \<Rightarrow> int_val \<Rightarrow> error + int_val" where
  "resolveVal_int f overrideKey defValue =
     (case mOverrides f overrideKey of
        None \<Rightarrow> Inr defValue
      | Some txt \<Rightarrow>
          (case stoi txt of
             Inl e \<Rightarrow> Inl e
           | Inr w \<Rightarrow> Inr (from_int (type_of defValue) (sint w))))"

definition resolveVal_str :: "CVFactory \<Rightarrow> string \<Rightarrow> string \<Rightarrow> string" where
  "resolveVal_str f overrideKey defValue =
     (case mOverrides f overrideKey of
        None \<Rightarrow> defValue
      | Some txt \<Rightarrow> txt)"

definition resolveVal_bool :: "CVFactory \<Rightarrow> string \<Rightarrow> bool \<Rightarrow> bool" where
  "resolveVal_bool f overrideKey defValue =
     (case mOverrides f overrideKey of
        None \<Rightarrow> defValue
      | Some txt \<Rightarrow> strToBool txt)"

definition Make_IntReadOnlyCV :: "CVFactory \<Rightarrow> string \<Rightarrow> int_val \<Rightarrow> string \<Rightarrow> error + AbstractCV" where
  "Make_IntReadOnlyCV f k defVal h =
     (case resolveVal_int f k defVal of
        Inl e \<Rightarrow> Inl e
      | Inr v \<Rightarrow> Inr (IntReadOnlyCV v k h))"

definition Make_StrReadOnlyCV :: "CVFactory \<Rightarrow> string \<Rightarrow> string \<Rightarrow> string \<Rightarrow> AbstractCV" where
  "Make_StrReadOnlyCV f k defVal h = StrReadOnlyCV (resolveVal_str f k defVal) k h"

definition Make_IntUpdatableCV :: "CVFactory \<Rightarrow> string \<Rightarrow> int_val \<Rightarrow> string \<Rightarrow> error + AbstractCV" where
  "Make_IntUpdatableCV f k defVal h =
     (case resolveVal_int f k defVal of
        Inl e \<Rightarrow> Inl e
      | Inr v \<Rightarrow> Inr (IntUpdatableCV v k h))"

definition Make_BoolReadOnlyCV :: "CVFactory \<Rightarrow> string \<Rightarrow> bool \<Rightarrow> string \<Rightarrow> AbstractCV" where
  "Make_BoolReadOnlyCV f k defVal h = BoolReadOnlyCV (resolveVal_bool f k defVal) k h"

subsection \<open>ConfigTemplate\<close>

text \<open>
  \<^verbatim>\<open>mParms\<close> maps a parameter to a \<^verbatim>\<open>shared_ptr\<close>, which may be null: \<open>None\<close> is an
  absent key, \<open>Some None\<close> a key bound to the null pointer.
\<close>

record 'e ConfigTemplate =
  mFactory :: CVFactory
  mParms :: "'e \<rightharpoonup> AbstractCV option"

text \<open>\<^verbatim>\<open>mParms[parm]\<close>: an absent key is inserted with a null pointer.\<close>

definition subscript :: "('e \<rightharpoonup> AbstractCV option) \<Rightarrow> 'e \<Rightarrow> AbstractCV option \<times> ('e \<rightharpoonup> AbstractCV option)" where
  "subscript m parm =
     (case m parm of
        None \<Rightarrow> (None, m(parm \<mapsto> None))
      | Some p \<Rightarrow> (p, m))"

text \<open>The type \<^verbatim>\<open>T\<close> asked of \<^verbatim>\<open>as_\<close>, and what it returns.\<close>

datatype dest_type = TString | TBool | TInteger int_type

datatype cfg_value = VString string | VBoolean bool | VInteger int_val

text \<open>The three overloads of \<^verbatim>\<open>convertToType\<close>, chosen by the type of \<^verbatim>\<open>returnVal\<close>.\<close>

fun convertToType :: "AbstractCV \<Rightarrow> dest_type \<Rightarrow> error + cfg_value" where
  "convertToType val TString = Inr (VString (asStr val))"
| "convertToType val (TInteger t) =
     (case asInt val of
        Inl e \<Rightarrow> Inl e
      | Inr w \<Rightarrow> Inr (VInteger (from_int t (sint w))))"
| "convertToType val TBool = Inr (VBoolean (asBool val))"

text \<open>
  \<^verbatim>\<open>as_\<close> (here \<open>as_type\<close>) and \<^verbatim>\<open>set\<close> (here \<open>set_parm\<close>) return their outcome together with the registry after the call,
  since \<^verbatim>\<open>mParms\<close> is mutable and an exception does not undo what was done before it.
\<close>

definition as_type :: "dest_type \<Rightarrow> 'e \<Rightarrow> 'e ConfigTemplate \<Rightarrow> (error + cfg_value) \<times> 'e ConfigTemplate" where
  "as_type T parm cfg =
     (case subscript (mParms cfg) parm of
        (None, m) \<Rightarrow> (Inl NullDereference, cfg\<lparr>mParms := m\<rparr>)
      | (Some val, m) \<Rightarrow> (convertToType val T, cfg\<lparr>mParms := m\<rparr>))"

definition set_parm :: "'e \<Rightarrow> string \<Rightarrow> 'e ConfigTemplate \<Rightarrow> (error + unit) \<times> 'e ConfigTemplate" where
  "set_parm parm newVal cfg =
     (case subscript (mParms cfg) parm of
        (None, m) \<Rightarrow> (Inl NullDereference, cfg\<lparr>mParms := m\<rparr>)
      | (Some val, m) \<Rightarrow>
          (case set_cv val newVal of
             Inl e \<Rightarrow> (Inl e, cfg\<lparr>mParms := m\<rparr>)
           | Inr val' \<Rightarrow> (Inr (), cfg\<lparr>mParms := m(parm \<mapsto> Some val')\<rparr>)))"

subsection \<open>The two registries of example.cpp\<close>

datatype DatabaseConfigParm = MAX_ROWS_PER_ROWGROUP | STRIDESIZE | SHARED_FS_TYPE | CACHE_MEM_SZ

datatype ClusterConfigParm = NUM_NODES | ZK_TIMEOUT | QUORUM_WRITE | INSERT_FLUSH

text \<open>
  The constructors build the values in the order of the initialiser list; the first
  exception ends the construction.
\<close>

definition DatabaseConfig :: "(string \<rightharpoonup> string) \<Rightarrow> error + DatabaseConfigParm ConfigTemplate" where
  "DatabaseConfig overrides =
     (let f = CVFactory overrides in
      case Make_IntReadOnlyCV f ''MAX_ROWS_PER_ROWGROUP'' (VInt32 10000)
             ''Maximum number of rows per row group.'' of
        Inl e \<Rightarrow> Inl e
      | Inr p1 \<Rightarrow>
      (case Make_IntReadOnlyCV f ''STRIDE_SIZE'' (VInt16 512)
              ''Maximum stride size of a table'' of
         Inl e \<Rightarrow> Inl e
       | Inr p2 \<Rightarrow>
       (let p3 = Make_StrReadOnlyCV f ''SHARED_FS'' ''alluxio'' ''The file system type'' in
        case Make_IntUpdatableCV f ''CACHE_MEM_SZ'' (VInt64 0) ''Memory size of cache'' of
          Inl e \<Rightarrow> Inl e
        | Inr p4 \<Rightarrow>
            Inr \<lparr>mFactory = f,
                 mParms = [MAX_ROWS_PER_ROWGROUP \<mapsto> Some p1, STRIDESIZE \<mapsto> Some p2,
                           SHARED_FS_TYPE \<mapsto> Some p3, CACHE_MEM_SZ \<mapsto> Some p4]\<rparr>)))"

definition ClusterConfig :: "(string \<rightharpoonup> string) \<Rightarrow> error + ClusterConfigParm ConfigTemplate" where
  "ClusterConfig overrides =
     (let f = CVFactory overrides in
      case Make_IntReadOnlyCV f ''NUM_NODES'' (VInt8 3) ''Number of nodes in the cluster.'' of
        Inl e \<Rightarrow> Inl e
      | Inr p1 \<Rightarrow>
      (case Make_IntReadOnlyCV f ''ZK_TIMEOUT'' (VInt64 10000)
              ''Zookeeper timeout in milliseconds'' of
         Inl e \<Rightarrow> Inl e
       | Inr p2 \<Rightarrow>
       (let p3 = Make_StrReadOnlyCV f ''QUORUM_WRITE'' ''true'' ''Is quorum write set'';
            p4 = Make_BoolReadOnlyCV f ''INSERT_FLUSH'' True ''Does each insert flush?''
        in Inr \<lparr>mFactory = f,
                mParms = [NUM_NODES \<mapsto> Some p1, ZK_TIMEOUT \<mapsto> Some p2,
                          QUORUM_WRITE \<mapsto> Some p3, INSERT_FLUSH \<mapsto> Some p4]\<rparr>)))"

subsection \<open>Notions used to state the properties\<close>

text \<open>The number \<^verbatim>\<open>std::stoi\<close> reads from a sign \<open>sg\<close> and a run of digits \<open>ds\<close>.\<close>

definition signed_val :: "string \<Rightarrow> string \<Rightarrow> int" where
  "signed_val sg ds = (if sg = ''-'' then - dec_val 0 ds else dec_val 0 ds)"

text \<open>
  An integer literal: an optional sign, then one digit or more, and nothing else; and the
  number it denotes.
\<close>

definition valid_integer_literal :: "string \<Rightarrow> bool" where
  "valid_integer_literal s =
     (case strip_sign s of (neg, ds) \<Rightarrow> ds \<noteq> [] \<and> list_all isdigit ds)"

definition literal_value :: "string \<Rightarrow> int" where
  "literal_value s =
     (case strip_sign s of (neg, ds) \<Rightarrow> if neg then - dec_val 0 ds else dec_val 0 ds)"

text \<open>
  Equality of two texts when case is ignored: the same length, and at each position the
  same byte or the lower-case and upper-case form of one letter.
\<close>

definition same_letter :: "char \<Rightarrow> char \<Rightarrow> bool" where
  "same_letter c d =
     (c = d
      \<or> (islower c \<and> (of_char c :: nat) = of_char d + 32)
      \<or> (islower d \<and> (of_char d :: nat) = of_char c + 32))"

definition equal_ignoring_case :: "string \<Rightarrow> string \<Rightarrow> bool" where
  "equal_ignoring_case s t = list_all2 same_letter s t"

text \<open>The variants that inherit \<^verbatim>\<open>AbstractCV::set\<close>.\<close>

fun read_only :: "AbstractCV \<Rightarrow> bool" where
  "read_only (IntReadOnlyCV v k h) = True"
| "read_only (IntUpdatableCV v k h) = False"
| "read_only (BoolReadOnlyCV b k h) = True"
| "read_only (StrReadOnlyCV s k h) = True"

section \<open>Properties\<close>

subsection \<open>Conversions between integer types\<close>

lemma word_of_int_sint_word_of_int:
  "LENGTH('a::len) \<le> LENGTH('b::len) \<Longrightarrow>
   (word_of_int (sint (word_of_int n :: 'b word)) :: 'a word) = word_of_int n"
  by (simp add: word_of_int_eq_iff sint_sbintrunc' take_bit_signed_take_bit del: of_int_sint)

lemma sint_word_of_int_mod:
  "sint (word_of_int n :: 'a::len word) mod 2 ^ LENGTH('a) = n mod 2 ^ LENGTH('a)"
  by (simp add: sint_sbintrunc' take_bit_signed_take_bit flip: take_bit_eq_mod)

lemma sint_scast_32_64: "sint (scast (w :: 32 word) :: 64 word) = sint w"
  using sint_ge [of w] sint_lt [of w]
  by (simp add: signed_scast_eq signed_take_bit_int_eq_self_iff)

lemma sint_word_of_int_32:
  "- (2 ^ 31) \<le> n \<Longrightarrow> n < 2 ^ 31 \<Longrightarrow> sint (word_of_int n :: 32 word) = n"
  by (simp add: sint_sbintrunc' signed_take_bit_int_eq_self)

lemma from_int_via_int64: "from_int t (sint (word_of_int n :: 64 word)) = from_int t n"
  by (cases t) (simp_all add: word_of_int_sint_word_of_int del: of_int_sint)

lemma type_of_from_int: "type_of (from_int t n) = t"
  by (cases t) simp_all

lemma int_of_val_from_int_mod: "int_of_val (from_int t n) mod 2 ^ bits t = n mod 2 ^ bits t"
proof (cases t)
  case Int8
  then show ?thesis using sint_word_of_int_mod [where 'a = 8, of n] by simp
next
  case Int16
  then show ?thesis using sint_word_of_int_mod [where 'a = 16, of n] by simp
next
  case Int32
  then show ?thesis using sint_word_of_int_mod [where 'a = 32, of n] by simp
next
  case Int64
  then show ?thesis using sint_word_of_int_mod [where 'a = 64, of n] by simp
qed (simp_all add: uint_word_of_int)

subsection \<open>Lookups in the registry\<close>

lemma subscript_present: "m parm = Some p \<Longrightarrow> subscript m parm = (p, m)"
  by (simp add: subscript_def)

lemma as_type_present:
  "mParms cfg parm = Some (Some val) \<Longrightarrow> as_type T parm cfg = (convertToType val T, cfg)"
  by (simp add: as_type_def subscript_present)

lemma as_type_null:
  "mParms cfg parm = Some None \<Longrightarrow> as_type T parm cfg = (Inl NullDereference, cfg)"
  by (simp add: as_type_def subscript_present)

subsection \<open>The boolean projection\<close>

lemma toupper_eq_iff:
  assumes "\<not> islower d"
  shows "toupper c = d \<longleftrightarrow> same_letter c d"
proof (cases "islower c")
  case True
  then have lo: "97 \<le> (of_char c :: nat)" and hi: "(of_char c :: nat) \<le> 122"
    by (simp_all add: islower_def)
  have "(of_char c :: nat) < 256"
    using hi by simp
  have "toupper c = d \<longleftrightarrow> (of_char (toupper c) :: nat) = of_char d"
    by simp
  also have "(of_char (toupper c) :: nat) = of_char c - 32"
    using True hi by (simp add: toupper_def)
  also have "(of_char c - 32 = (of_char d :: nat)) \<longleftrightarrow> (of_char c :: nat) = of_char d + 32"
    using lo by auto
  finally show ?thesis
    using True assms by (auto simp: same_letter_def)
next
  case False
  then have "toupper c = c"
    by (simp add: toupper_def)
  then show ?thesis
    using False assms by (auto simp: same_letter_def)
qed

lemma map_toupper_eq_iff:
  "list_all (\<lambda>d. \<not> islower d) t \<Longrightarrow> map toupper s = t \<longleftrightarrow> equal_ignoring_case s t"
  unfolding equal_ignoring_case_def
proof (induction s arbitrary: t)
  case Nil
  then show ?case by auto
next
  case (Cons c s)
  then show ?case
    by (cases t) (auto simp: toupper_eq_iff)
qed

lemma strToBool_ignoring_case:
  "strToBool s =
     (\<not> (equal_ignoring_case s ''0'' \<or> equal_ignoring_case s ''FALSE''
          \<or> equal_ignoring_case s ''OFF''))"
proof -
  have "map toupper s = ''0'' \<longleftrightarrow> equal_ignoring_case s ''0''"
    by (rule map_toupper_eq_iff) (simp add: islower_def)
  moreover have "map toupper s = ''FALSE'' \<longleftrightarrow> equal_ignoring_case s ''FALSE''"
    by (rule map_toupper_eq_iff) (simp add: islower_def)
  moreover have "map toupper s = ''OFF'' \<longleftrightarrow> equal_ignoring_case s ''OFF''"
    by (rule map_toupper_eq_iff) (simp add: islower_def)
  ultimately show ?thesis
    by (simp add: strToBool_def Let_def)
qed

lemmas eval_toupper = toupper_def islower_def char_of_def bit_Suc_0_iff

text \<open>
  C9. The text projection of a boolean value is the lower-case literal \<open>true\<close> when the
  stored value is true and \<open>false\<close> when it is false, and the boolean text rule reads
  either literal back as the stored value.
\<close>

theorem BoolReadOnlyCV_asStr:
  "asStr (BoolReadOnlyCV b k h) = (if b then ''true'' else ''false'')
   \<and> strToBool (asStr (BoolReadOnlyCV b k h)) = b"
  by (cases b) (simp_all add: strToBool_def eval_toupper)

text \<open>
  C6. The boolean projection of a text value is false when the stored text equals
  \<open>0\<close>, \<open>FALSE\<close> or \<open>OFF\<close> with case ignored, and true for every other text, the empty
  one included; the boolean projection of an integer value, read-only or updatable, is
  true exactly when the stored number is not zero.
\<close>

theorem asBool_rule:
  "asBool (StrReadOnlyCV s k h) =
     (\<not> (equal_ignoring_case s ''0'' \<or> equal_ignoring_case s ''FALSE''
          \<or> equal_ignoring_case s ''OFF''))
   \<and> asBool (StrReadOnlyCV [] k h) = True
   \<and> asBool (IntReadOnlyCV v k h) = (int_of_val v \<noteq> 0)
   \<and> asBool (IntUpdatableCV v k h) = (int_of_val v \<noteq> 0)"
  using strToBool_ignoring_case [of s] by (simp add: strToBool_def)

theorem asBool_rule_witness:
  "asBool (StrReadOnlyCV ''true'' ''QUORUM_WRITE'' ''Is quorum write set'') = True
   \<and> asBool (StrReadOnlyCV ''oFf'' ''QUORUM_WRITE'' ''Is quorum write set'') = False
   \<and> asBool (IntReadOnlyCV (VInt8 3) ''NUM_NODES'' ''Number of nodes in the cluster.'') = True
   \<and> asBool (IntUpdatableCV (VInt64 0) ''CACHE_MEM_SZ'' ''Memory size of cache'') = False"
  using asBool_rule [of "''true''" "''QUORUM_WRITE''" "''Is quorum write set''" "VInt8 3"]
    asBool_rule [of "''oFf''" "''QUORUM_WRITE''" "''Is quorum write set''" "VInt64 0"]
  by (simp add: equal_ignoring_case_def same_letter_def islower_def)

subsection \<open>Typed access\<close>

text \<open>
  C5. For an integer value, read-only or updatable, the 64-bit projection never fails,
  and whenever a value has a 64-bit projection \<open>w\<close>, asking the registry for it as
  integer type \<open>t\<close> gives, without any range check or error, the value of type \<open>t\<close>
  whose bits are the low \<open>bits t\<close> bits of \<open>w\<close>: it agrees with \<open>w\<close> modulo
  \<open>2 ^ bits t\<close>. A stored 131072 read as unsigned 8-bit is 0, as signed or unsigned
  16-bit is 0, and as 64-bit is 131072.
\<close>

theorem get_integer_truncates:
  "asInt (IntReadOnlyCV v k h) = Inr (word_of_int (int_of_val v))
   \<and> asInt (IntUpdatableCV v k h) = Inr (word_of_int (int_of_val v))
   \<and> (mParms cfg parm = Some (Some val) \<and> asInt val = Inr w \<longrightarrow>
        fst (as_type (TInteger t) parm cfg) = Inr (VInteger (from_int t (sint w)))
        \<and> type_of (from_int t (sint w)) = t
        \<and> int_of_val (from_int t (sint w)) mod 2 ^ bits t = sint w mod 2 ^ bits t)
   \<and> convertToType (IntReadOnlyCV v k h) (TInteger t) = Inr (VInteger (from_int t (int_of_val v)))
   \<and> convertToType (IntUpdatableCV v k h) (TInteger t) = Inr (VInteger (from_int t (int_of_val v)))
   \<and> convertToType (IntReadOnlyCV (VInt32 131072) k h) (TInteger UInt8) = Inr (VInteger (VUInt8 0))
   \<and> convertToType (IntReadOnlyCV (VInt32 131072) k h) (TInteger Int16) = Inr (VInteger (VInt16 0))
   \<and> convertToType (IntReadOnlyCV (VInt32 131072) k h) (TInteger UInt16) = Inr (VInteger (VUInt16 0))
   \<and> convertToType (IntReadOnlyCV (VInt32 131072) k h) (TInteger Int64) = Inr (VInteger (VInt64 131072))
   \<and> convertToType (IntReadOnlyCV (VInt32 131072) k h) (TInteger UInt64) = Inr (VInteger (VUInt64 131072))"
proof -
  have "from_int t (sint (word_of_int (int_of_val v) :: 64 word)) = from_int t (int_of_val v)"
    by (rule from_int_via_int64)
  then have conv:
    "convertToType (IntReadOnlyCV v k h) (TInteger t) = Inr (VInteger (from_int t (int_of_val v)))"
    "convertToType (IntUpdatableCV v k h) (TInteger t) = Inr (VInteger (from_int t (int_of_val v)))"
    by simp_all
  have reg: "mParms cfg parm = Some (Some val) \<and> asInt val = Inr w \<longrightarrow>
        fst (as_type (TInteger t) parm cfg) = Inr (VInteger (from_int t (sint w)))
        \<and> type_of (from_int t (sint w)) = t
        \<and> int_of_val (from_int t (sint w)) mod 2 ^ bits t = sint w mod 2 ^ bits t"
    by (simp add: as_type_present type_of_from_int int_of_val_from_int_mod)
  have ex: "convertToType (IntReadOnlyCV (VInt32 131072) k h) (TInteger UInt8) = Inr (VInteger (VUInt8 0))"
    "convertToType (IntReadOnlyCV (VInt32 131072) k h) (TInteger Int16) = Inr (VInteger (VInt16 0))"
    "convertToType (IntReadOnlyCV (VInt32 131072) k h) (TInteger UInt16) = Inr (VInteger (VUInt16 0))"
    "convertToType (IntReadOnlyCV (VInt32 131072) k h) (TInteger Int64) = Inr (VInteger (VInt64 131072))"
    "convertToType (IntReadOnlyCV (VInt32 131072) k h) (TInteger UInt64) = Inr (VInteger (VUInt64 131072))"
    by simp_all
  show ?thesis
    using conv reg ex by simp
qed

theorem get_integer_truncates_witness:
  "fst (as_type (TInteger UInt8) CACHE_MEM_SZ
     \<lparr>mFactory = CVFactory Map.empty,
      mParms = [CACHE_MEM_SZ \<mapsto>
        Some (IntUpdatableCV (VInt64 4096000) ''CACHE_MEM_SZ'' ''Memory size of cache'')]\<rparr>)
   = Inr (VInteger (VUInt8 0))
   \<and> asInt (IntUpdatableCV (VInt64 4096000) ''CACHE_MEM_SZ'' ''Memory size of cache'') = Inr 4096000
   \<and> (4096000 :: int) mod 2 ^ 8 = 0"
  using get_integer_truncates [of "VInt64 4096000" "''CACHE_MEM_SZ''" "''Memory size of cache''"
    "\<lparr>mFactory = CVFactory Map.empty,
      mParms = [CACHE_MEM_SZ \<mapsto>
        Some (IntUpdatableCV (VInt64 4096000) ''CACHE_MEM_SZ'' ''Memory size of cache'')]\<rparr>"
    CACHE_MEM_SZ "IntUpdatableCV (VInt64 4096000) ''CACHE_MEM_SZ'' ''Memory size of cache''"
    4096000 UInt8]
  by simp

text \<open>
  C10. Reading a declared parameter as any type leaves the registry as it was: no value,
  name or help text changes, so reading it again gives the same result, and a read of
  any parameter after it gives what it would have given before.
\<close>

theorem get_changes_nothing:
  assumes "parm \<in> dom (mParms cfg)"
  shows "snd (as_type T parm cfg) = cfg
    \<and> fst (as_type T parm (snd (as_type T parm cfg))) = fst (as_type T parm cfg)
    \<and> as_type T' parm' (snd (as_type T parm cfg)) = as_type T' parm' cfg"
proof -
  from assms obtain p where p: "mParms cfg parm = Some p"
    by auto
  have "snd (as_type T parm cfg) = cfg"
    using p by (cases p) (simp_all add: as_type_present as_type_null)
  then show ?thesis
    by simp
qed

theorem get_changes_nothing_witness:
  "snd (as_type TString INSERT_FLUSH
     \<lparr>mFactory = CVFactory Map.empty,
      mParms = [INSERT_FLUSH \<mapsto>
        Some (BoolReadOnlyCV True ''INSERT_FLUSH'' ''Does each insert flush?'')]\<rparr>)
   = \<lparr>mFactory = CVFactory Map.empty,
      mParms = [INSERT_FLUSH \<mapsto>
        Some (BoolReadOnlyCV True ''INSERT_FLUSH'' ''Does each insert flush?'')]\<rparr>"
  using get_changes_nothing [of INSERT_FLUSH
    "\<lparr>mFactory = CVFactory Map.empty,
      mParms = [INSERT_FLUSH \<mapsto>
        Some (BoolReadOnlyCV True ''INSERT_FLUSH'' ''Does each insert flush?'')]\<rparr>" TString]
  by simp

subsection \<open>Mutation\<close>

lemma set_cv_read_only:
  "read_only val \<Longrightarrow> set_cv val s = Inl (RuntimeError (read_only_message @ key val))"
  by (cases val) simp_all

text \<open>
  C3. On a read-only variant (integer, boolean or text) \<open>set\<close> with any text fails with
  the runtime error whose message ends in the parameter's name; the registry, and with
  it the stored value, is the same after the failed call, and a read after it returns
  what a read before it returned.
\<close>

theorem set_read_only_fails:
  assumes "mParms cfg parm = Some (Some val)" and "read_only val"
  shows "set_cv val newVal = Inl (RuntimeError (read_only_message @ key val))
    \<and> set_parm parm newVal cfg = (Inl (RuntimeError (read_only_message @ key val)), cfg)
    \<and> as_type T parm (snd (set_parm parm newVal cfg)) = as_type T parm cfg
    \<and> fst (as_type T parm (snd (set_parm parm newVal cfg))) = convertToType val T"
proof -
  have cv: "set_cv val newVal = Inl (RuntimeError (read_only_message @ key val))"
    using assms(2) by (rule set_cv_read_only)
  then have "set_parm parm newVal cfg = (Inl (RuntimeError (read_only_message @ key val)), cfg)"
    using assms(1) by (simp add: set_parm_def subscript_present)
  then show ?thesis
    using cv assms(1) by (simp add: as_type_present)
qed

theorem set_read_only_fails_witness:
  "set_parm INSERT_FLUSH ''false''
     \<lparr>mFactory = CVFactory Map.empty,
      mParms = [INSERT_FLUSH \<mapsto>
        Some (BoolReadOnlyCV True ''INSERT_FLUSH'' ''Does each insert flush?'')]\<rparr>
   = (Inl (RuntimeError ''Read-only config value.  Set is not supported: INSERT_FLUSH''),
      \<lparr>mFactory = CVFactory Map.empty,
       mParms = [INSERT_FLUSH \<mapsto>
         Some (BoolReadOnlyCV True ''INSERT_FLUSH'' ''Does each insert flush?'')]\<rparr>)"
  using set_read_only_fails [of
    "\<lparr>mFactory = CVFactory Map.empty,
      mParms = [INSERT_FLUSH \<mapsto>
        Some (BoolReadOnlyCV True ''INSERT_FLUSH'' ''Does each insert flush?'')]\<rparr>"
    INSERT_FLUSH "BoolReadOnlyCV True ''INSERT_FLUSH'' ''Does each insert flush?''" "''false''"]
  by (simp add: read_only_message_def)

subsection \<open>What std::stoi reads\<close>

lemma isdigit_not_isspace: "isdigit c \<Longrightarrow> \<not> isspace c"
  by (auto simp: isdigit_def isspace_def)

lemma isdigit_not_sign: "isdigit c \<Longrightarrow> c \<noteq> CHR ''-'' \<and> c \<noteq> CHR ''+''"
  by (auto simp: isdigit_def)

lemma sign_not_isspace: "\<not> isspace (CHR ''-'')" "\<not> isspace (CHR ''+'')"
  by (simp_all add: isspace_def)

lemma dropWhile_spaces:
  assumes "list_all isspace ws" and "t = [] \<or> \<not> isspace (hd t)"
  shows "dropWhile isspace (ws @ t) = t"
  using assms(1)
proof (induction ws)
  case Nil
  show ?case using assms(2) by (cases t) auto
next
  case (Cons c ws)
  then show ?case by simp
qed

lemma takeWhile_digits:
  assumes "list_all isdigit ds" and "rest = [] \<or> \<not> isdigit (hd rest)"
  shows "takeWhile isdigit (ds @ rest) = ds"
  using assms(1)
proof (induction ds)
  case Nil
  show ?case using assms(2) by (cases rest) auto
next
  case (Cons d ds)
  then show ?case by simp
qed

lemma strip_sign_unsigned:
  "u = [] \<or> (hd u \<noteq> CHR ''-'' \<and> hd u \<noteq> CHR ''+'') \<Longrightarrow> strip_sign u = (False, u)"
  by (cases u) auto

lemma stoi_decomposed:
  assumes ws: "list_all isspace ws"
    and sg: "sg = [] \<or> sg = ''+'' \<or> sg = ''-''"
    and ds: "list_all isdigit ds"
    and rest: "rest = [] \<or> \<not> isdigit (hd rest)"
    and nodig: "ds = [] \<and> sg = [] \<longrightarrow>
      rest = [] \<or> (\<not> isspace (hd rest) \<and> hd rest \<noteq> CHR ''+'' \<and> hd rest \<noteq> CHR ''-'')"
  shows "stoi (ws @ sg @ ds @ rest) =
    (if ds = [] then Inl InvalidArgument
     else if signed_val sg ds < - (2 ^ 31) \<or> 2 ^ 31 \<le> signed_val sg ds then Inl OutOfRange
     else Inr (word_of_int (signed_val sg ds)))"
proof -
  let ?u = "ds @ rest"
  have hd_u: "?u = [] \<or> (\<not> isspace (hd ?u) \<and> hd ?u \<noteq> CHR ''+'' \<and> hd ?u \<noteq> CHR ''-'')
      \<or> sg \<noteq> []"
    using ds nodig by (cases ds) (auto dest: isdigit_not_isspace isdigit_not_sign)
  have "sg @ ?u = [] \<or> \<not> isspace (hd (sg @ ?u))"
    using sg hd_u by (auto simp: sign_not_isspace)
  with ws have skip: "dropWhile isspace (ws @ sg @ ?u) = sg @ ?u"
    by (rule dropWhile_spaces)
  have sign: "strip_sign (sg @ ?u) = (sg = ''-'', ?u)"
    using sg hd_u by (auto simp: strip_sign_unsigned)
  have run: "takeWhile isdigit ?u = ds"
    using ds rest by (rule takeWhile_digits)
  show ?thesis
    using skip sign run by (cases ds) (simp_all add: stoi_def signed_val_def Let_def)
qed

lemma stoi_leading_literal:
  assumes "sg = [] \<or> sg = ''+'' \<or> sg = ''-''" and "ds \<noteq> []" and "list_all isdigit ds"
    and "rest = [] \<or> \<not> isdigit (hd rest)"
  shows "stoi (sg @ ds @ rest) =
    (if - (2 ^ 31) \<le> signed_val sg ds \<and> signed_val sg ds < 2 ^ 31
     then Inr (word_of_int (signed_val sg ds)) else Inl OutOfRange)"
  using stoi_decomposed [of "[]" sg ds rest] assms by (auto simp: not_less not_le)

lemma valid_integer_literal_split:
  assumes "valid_integer_literal s"
  obtains sg ds where "s = sg @ ds" and "sg = [] \<or> sg = ''+'' \<or> sg = ''-''"
    and "ds \<noteq> []" and "list_all isdigit ds" and "literal_value s = signed_val sg ds"
proof (cases s)
  case Nil
  with assms show ?thesis by (simp add: valid_integer_literal_def)
next
  case (Cons c cs)
  consider "c = CHR ''-''" | "c = CHR ''+''" | "c \<noteq> CHR ''-''" "c \<noteq> CHR ''+''"
    by blast
  then show ?thesis
  proof cases
    case 1
    with Cons assms that [of "''-''" cs] show ?thesis
      by (simp add: valid_integer_literal_def literal_value_def signed_val_def)
  next
    case 2
    with Cons assms that [of "''+''" cs] show ?thesis
      by (simp add: valid_integer_literal_def literal_value_def signed_val_def)
  next
    case 3
    with Cons assms that [of "[]" s] show ?thesis
      by (simp add: valid_integer_literal_def literal_value_def signed_val_def)
  qed
qed

lemma stoi_valid_integer_literal:
  assumes "valid_integer_literal s"
  shows "stoi s =
    (if - (2 ^ 31) \<le> literal_value s \<and> literal_value s < 2 ^ 31
     then Inr (word_of_int (literal_value s)) else Inl OutOfRange)"
proof -
  from assms obtain sg ds where s: "s = sg @ ds" and sg: "sg = [] \<or> sg = ''+'' \<or> sg = ''-''"
    and ds: "ds \<noteq> []" "list_all isdigit ds" and v: "literal_value s = signed_val sg ds"
    by (rule valid_integer_literal_split)
  show ?thesis
    using stoi_leading_literal [OF sg ds, of "[]"] s v by simp
qed

lemma stoi_parts_exist:
  "\<exists>ws sg ds rest. s = ws @ sg @ ds @ rest \<and> list_all isspace ws
     \<and> (sg = [] \<or> sg = ''+'' \<or> sg = ''-'') \<and> list_all isdigit ds
     \<and> (rest = [] \<or> \<not> isdigit (hd rest))
     \<and> (ds = [] \<and> sg = [] \<longrightarrow>
          rest = [] \<or> (\<not> isspace (hd rest) \<and> hd rest \<noteq> CHR ''+'' \<and> hd rest \<noteq> CHR ''-''))"
proof -
  define ws where "ws = takeWhile isspace s"
  define t where "t = dropWhile isspace s"
  define sg where "sg = (if t \<noteq> [] \<and> hd t = CHR ''-'' then ''-''
                         else if t \<noteq> [] \<and> hd t = CHR ''+'' then ''+'' else [])"
  define u where "u = (if sg = [] then t else tl t)"
  define ds where "ds = takeWhile isdigit u"
  define rest where "rest = dropWhile isdigit u"
  have "s = ws @ t"
    by (simp add: ws_def t_def)
  moreover have "t = sg @ u"
    by (cases t) (auto simp: sg_def u_def)
  moreover have "u = ds @ rest"
    by (simp add: ds_def rest_def)
  ultimately have split: "s = ws @ sg @ ds @ rest"
    by simp
  have spaces: "list_all isspace ws"
    by (auto simp: ws_def list_all_iff dest: set_takeWhileD)
  have sign: "sg = [] \<or> sg = ''+'' \<or> sg = ''-''"
    by (simp add: sg_def)
  have digits: "list_all isdigit ds"
    by (auto simp: ds_def list_all_iff dest: set_takeWhileD)
  have rest: "rest = [] \<or> \<not> isdigit (hd rest)"
    using hd_dropWhile [of isdigit u] by (auto simp: rest_def)
  have t: "t = [] \<or> \<not> isspace (hd t)"
    using hd_dropWhile [of isspace s] by (auto simp: t_def)
  have "rest = [] \<or> (\<not> isspace (hd rest) \<and> hd rest \<noteq> CHR ''+'' \<and> hd rest \<noteq> CHR ''-'')"
    if "ds = []" "sg = []"
  proof -
    from that have "rest = t"
      using \<open>u = ds @ rest\<close> by (simp add: u_def)
    moreover from that(2) have "t = [] \<or> (hd t \<noteq> CHR ''+'' \<and> hd t \<noteq> CHR ''-'')"
      by (auto simp: sg_def split: if_splits)
    ultimately show ?thesis
      using t by auto
  qed
  with split spaces sign digits rest show ?thesis
    by blast
qed

lemma stoi_512abc: "stoi ''512abc'' = Inr 512"
  by (simp add: stoi_def isspace_def isdigit_def digit_val_def)

lemma stoi_5000000000: "stoi ''5000000000'' = Inl OutOfRange"
  by (simp add: stoi_def isspace_def isdigit_def digit_val_def)

lemma stoi_4294967296: "stoi ''4294967296'' = Inl OutOfRange"
  by (simp add: stoi_def isspace_def isdigit_def digit_val_def)

lemma stoi_4096000: "stoi ''4096000'' = Inr 4096000"
  by (simp add: stoi_def isspace_def isdigit_def digit_val_def)

lemma stoi_512: "stoi ''512'' = Inr 512"
  by (simp add: stoi_def isspace_def isdigit_def digit_val_def)

subsection \<open>Integer parsing of caller-supplied text\<close>

text \<open>
  C8. A text that begins with an integer literal (an optional sign and one digit or
  more) and goes on with anything that is not a digit is parsed as that literal: the
  rest is ignored and no error is raised, provided the number lies in the 32-bit signed
  range; outside that range the parse fails with \<open>OutOfRange\<close> whatever the width of the
  destination. This is so for an override of an integer parameter at construction and for
  the argument of \<open>set\<close> on an updatable integer: \<open>set\<close> with \<open>512abc\<close> stores 512, and
  \<open>set\<close> with \<open>4294967296\<close> on a 64-bit parameter fails.
\<close>

theorem integer_parse_lenient_32bit:
  assumes "sg = [] \<or> sg = ''+'' \<or> sg = ''-''" and "ds \<noteq> []" and "list_all isdigit ds"
    and "rest = [] \<or> \<not> isdigit (hd rest)"
  shows "stoi (sg @ ds @ rest) =
      (if - (2 ^ 31) \<le> signed_val sg ds \<and> signed_val sg ds < 2 ^ 31
       then Inr (word_of_int (signed_val sg ds)) else Inl OutOfRange)
    \<and> resolveVal_int (CVFactory [k \<mapsto> sg @ ds @ rest]) k defValue =
      (if - (2 ^ 31) \<le> signed_val sg ds \<and> signed_val sg ds < 2 ^ 31
       then Inr (from_int (type_of defValue) (signed_val sg ds)) else Inl OutOfRange)
    \<and> set_cv (IntUpdatableCV v k h) (sg @ ds @ rest) =
      (if - (2 ^ 31) \<le> signed_val sg ds \<and> signed_val sg ds < 2 ^ 31
       then Inr (IntUpdatableCV (from_int (type_of v) (signed_val sg ds)) k h)
       else Inl OutOfRange)
    \<and> set_cv (IntUpdatableCV (VInt64 0) k h) ''512abc'' = Inr (IntUpdatableCV (VInt64 512) k h)
    \<and> set_cv (IntUpdatableCV (VInt64 0) k h) ''4294967296'' = Inl OutOfRange"
proof -
  let ?n = "signed_val sg ds"
  have parse: "stoi (sg @ ds @ rest) =
      (if - (2 ^ 31) \<le> ?n \<and> ?n < 2 ^ 31 then Inr (word_of_int ?n) else Inl OutOfRange)"
    using assms by (rule stoi_leading_literal)
  have narrow: "sint (word_of_int ?n :: 32 word) = ?n" if "- (2 ^ 31) \<le> ?n" "?n < 2 ^ 31"
    using that by (rule sint_word_of_int_32)
  have resolve: "resolveVal_int (CVFactory [k \<mapsto> sg @ ds @ rest]) k defValue =
      (if - (2 ^ 31) \<le> ?n \<and> ?n < 2 ^ 31
       then Inr (from_int (type_of defValue) ?n) else Inl OutOfRange)"
    using parse narrow by (simp add: resolveVal_int_def del: of_int_sint)
  have update: "set_cv (IntUpdatableCV v k h) (sg @ ds @ rest) =
      (if - (2 ^ 31) \<le> ?n \<and> ?n < 2 ^ 31
       then Inr (IntUpdatableCV (from_int (type_of v) ?n) k h) else Inl OutOfRange)"
    using parse narrow by (simp del: of_int_sint)
  have ex1: "set_cv (IntUpdatableCV (VInt64 0) k h) ''512abc'' = Inr (IntUpdatableCV (VInt64 512) k h)"
    by (simp add: stoi_512abc)
  have ex2: "set_cv (IntUpdatableCV (VInt64 0) k h) ''4294967296'' = Inl OutOfRange"
    by (simp add: stoi_4294967296)
  show ?thesis
    using parse resolve update ex1 ex2 by (simp del: set_cv.simps)
qed

theorem integer_parse_lenient_32bit_witness:
  "list_all isdigit ''512'' \<and> \<not> isdigit (hd ''abc'')
   \<and> stoi ''-512abc'' = Inr (- 512)
   \<and> set_cv (IntUpdatableCV (VInt8 0) ''K'' ''H'') ''-512abc'' = Inr (IntUpdatableCV (VInt8 0) ''K'' ''H'')
   \<and> set_cv (IntUpdatableCV (VInt16 0) ''K'' ''H'') ''-512abc'' = Inr (IntUpdatableCV (VInt16 (- 512)) ''K'' ''H'')"
proof -
  have d: "list_all isdigit ''512''" and r: "''abc'' = [] \<or> \<not> isdigit (hd ''abc'')"
    by (simp_all add: isdigit_def)
  have v: "signed_val ''-'' ''512'' = - 512"
    by (simp add: signed_val_def digit_val_def)
  show ?thesis
    using d r
      integer_parse_lenient_32bit [of "''-''" "''512''" "''abc''" "''K''" "VInt8 0" "VInt8 0" "''H''"]
      integer_parse_lenient_32bit [of "''-''" "''512''" "''abc''" "''K''" "VInt16 0" "VInt16 0" "''H''"]
    by (simp add: v del: set_cv.simps)
qed

subsection \<open>The integer projection\<close>

text \<open>
  C7, as the claim states it, fails on the code: the stored text \<open>512abc\<close> is not an
  integer literal, yet its integer projection is 512 and no error is raised; and the
  stored text \<open>5000000000\<close> is an integer literal, yet its projection fails.
\<close>

theorem asInt_text_counterexample:
  "\<not> valid_integer_literal ''512abc''
   \<and> asInt (StrReadOnlyCV ''512abc'' ''SHARED_FS'' ''The file system type'') = Inr 512
   \<and> valid_integer_literal ''5000000000''
   \<and> asInt (StrReadOnlyCV ''5000000000'' ''SHARED_FS'' ''The file system type'') = Inl OutOfRange"
  by (simp add: valid_integer_literal_def isdigit_def stoi_512abc stoi_5000000000)

text \<open>
  C7, amended. The integer projection is a 64-bit signed integer. For a boolean value it
  is 0 or 1. For a text value, the stored text is read as white space \<open>ws\<close>, an optional
  sign \<open>sg\<close>, the longest run of digits \<open>ds\<close>, and a rest that is not looked at: with
  no digit the projection fails with \<open>InvalidArgument\<close>; with digits whose signed number
  lies outside the 32-bit signed range it fails with \<open>OutOfRange\<close>; otherwise it is that
  number. Every text \<open>s\<close> splits in this way.
\<close>

theorem asInt_projection:
  assumes ws: "list_all isspace ws"
    and sg: "sg = [] \<or> sg = ''+'' \<or> sg = ''-''"
    and ds: "list_all isdigit ds"
    and rest: "rest = [] \<or> \<not> isdigit (hd rest)"
    and nodig: "ds = [] \<and> sg = [] \<longrightarrow>
      rest = [] \<or> (\<not> isspace (hd rest) \<and> hd rest \<noteq> CHR ''+'' \<and> hd rest \<noteq> CHR ''-'')"
  shows "asInt (BoolReadOnlyCV b k h) = Inr (if b then 1 else 0)
    \<and> asInt (StrReadOnlyCV (ws @ sg @ ds @ rest) k h) =
        (if ds = [] then Inl InvalidArgument
         else if signed_val sg ds < - (2 ^ 31) \<or> 2 ^ 31 \<le> signed_val sg ds
         then Inl OutOfRange
         else Inr (word_of_int (signed_val sg ds)))
    \<and> (- (2 ^ 31) \<le> signed_val sg ds \<and> signed_val sg ds < 2 ^ 31 \<longrightarrow>
         sint (word_of_int (signed_val sg ds) :: 64 word) = signed_val sg ds)
    \<and> (\<exists>ws' sg' ds' rest'. s = ws' @ sg' @ ds' @ rest' \<and> list_all isspace ws'
         \<and> (sg' = [] \<or> sg' = ''+'' \<or> sg' = ''-'') \<and> list_all isdigit ds'
         \<and> (rest' = [] \<or> \<not> isdigit (hd rest'))
         \<and> (ds' = [] \<and> sg' = [] \<longrightarrow>
              rest' = [] \<or> (\<not> isspace (hd rest') \<and> hd rest' \<noteq> CHR ''+''
                \<and> hd rest' \<noteq> CHR ''-'')))"
proof -
  let ?n = "signed_val sg ds"
  have parse: "stoi (ws @ sg @ ds @ rest) =
    (if ds = [] then Inl InvalidArgument
     else if ?n < - (2 ^ 31) \<or> 2 ^ 31 \<le> ?n then Inl OutOfRange
     else Inr (word_of_int ?n))"
    using assms by (rule stoi_decomposed)
  have wide: "(scast (word_of_int ?n :: 32 word) :: 64 word) = word_of_int ?n"
    if "- (2 ^ 31) \<le> ?n" "?n < 2 ^ 31"
  proof -
    have "(scast (word_of_int ?n :: 32 word) :: 64 word)
        = word_of_int (sint (word_of_int ?n :: 32 word))"
      by simp
    also have "\<dots> = word_of_int ?n"
      by (simp only: sint_word_of_int_32 [OF that])
    finally show ?thesis .
  qed
  have same: "sint (word_of_int ?n :: 64 word) = ?n" if "- (2 ^ 31) \<le> ?n" "?n < 2 ^ 31"
  proof -
    have "sint (word_of_int ?n :: 64 word) = sint (scast (word_of_int ?n :: 32 word) :: 64 word)"
      by (simp only: wide [OF that])
    also have "\<dots> = sint (word_of_int ?n :: 32 word)"
      by (rule sint_scast_32_64)
    also have "\<dots> = ?n"
      using that by (rule sint_word_of_int_32)
    finally show ?thesis .
  qed
  have proj: "asInt (StrReadOnlyCV (ws @ sg @ ds @ rest) k h) =
    (if ds = [] then Inl InvalidArgument
     else if ?n < - (2 ^ 31) \<or> 2 ^ 31 \<le> ?n then Inl OutOfRange
     else Inr (word_of_int ?n))"
    using parse wide by (simp add: not_less not_le)
  show ?thesis
    using proj same stoi_parts_exist [of s] by simp
qed

theorem asInt_projection_witness:
  "list_all isspace ''  '' \<and> list_all isdigit ''12'' \<and> \<not> isdigit (hd ''abc'')
   \<and> asInt (BoolReadOnlyCV True ''INSERT_FLUSH'' ''Does each insert flush?'') = Inr 1
   \<and> asInt (StrReadOnlyCV ''  -12abc'' ''SHARED_FS'' ''The file system type'') = Inr (- 12)
   \<and> sint (- 12 :: 64 word) = - 12"
proof -
  have hyps: "list_all isspace ''  ''" "list_all isdigit ''12''"
    "''abc'' = [] \<or> \<not> isdigit (hd ''abc'')"
    by (simp_all add: isspace_def isdigit_def)
  have v: "signed_val ''-'' ''12'' = - 12"
    by (simp add: signed_val_def digit_val_def)
  show ?thesis
    using hyps
      asInt_projection [of "''  ''" "''-''" "''12''" "''abc''" True "''INSERT_FLUSH''"
        "''Does each insert flush?''" "''alluxio''"]
      asInt_projection [of "''  ''" "''-''" "''12''" "''abc''" True "''SHARED_FS''"
        "''The file system type''" "''alluxio''"]
    by (simp add: v del: asInt.simps(4))
qed

subsection \<open>Construction\<close>

lemma DatabaseConfig_empty:
  "DatabaseConfig Map.empty =
     Inr \<lparr>mFactory = CVFactory Map.empty,
          mParms = [MAX_ROWS_PER_ROWGROUP \<mapsto>
                      Some (IntReadOnlyCV (VInt32 10000) ''MAX_ROWS_PER_ROWGROUP''
                              ''Maximum number of rows per row group.''),
                    STRIDESIZE \<mapsto>
                      Some (IntReadOnlyCV (VInt16 512) ''STRIDE_SIZE''
                              ''Maximum stride size of a table''),
                    SHARED_FS_TYPE \<mapsto>
                      Some (StrReadOnlyCV ''alluxio'' ''SHARED_FS'' ''The file system type''),
                    CACHE_MEM_SZ \<mapsto>
                      Some (IntUpdatableCV (VInt64 0) ''CACHE_MEM_SZ''
                              ''Memory size of cache'')]\<rparr>"
  by (simp add: DatabaseConfig_def Make_IntReadOnlyCV_def Make_StrReadOnlyCV_def
      Make_IntUpdatableCV_def resolveVal_int_def resolveVal_str_def)

lemma ClusterConfig_empty:
  "ClusterConfig Map.empty =
     Inr \<lparr>mFactory = CVFactory Map.empty,
          mParms = [NUM_NODES \<mapsto>
                      Some (IntReadOnlyCV (VInt8 3) ''NUM_NODES''
                              ''Number of nodes in the cluster.''),
                    ZK_TIMEOUT \<mapsto>
                      Some (IntReadOnlyCV (VInt64 10000) ''ZK_TIMEOUT''
                              ''Zookeeper timeout in milliseconds''),
                    QUORUM_WRITE \<mapsto>
                      Some (StrReadOnlyCV ''true'' ''QUORUM_WRITE'' ''Is quorum write set''),
                    INSERT_FLUSH \<mapsto>
                      Some (BoolReadOnlyCV True ''INSERT_FLUSH''
                              ''Does each insert flush?'')]\<rparr>"
  by (simp add: ClusterConfig_def Make_IntReadOnlyCV_def Make_StrReadOnlyCV_def
      Make_BoolReadOnlyCV_def resolveVal_int_def resolveVal_str_def resolveVal_bool_def)

lemma DatabaseConfig_max_rows_512:
  "DatabaseConfig [''MAX_ROWS_PER_ROWGROUP'' \<mapsto> ''512''] =
     Inr \<lparr>mFactory = CVFactory [''MAX_ROWS_PER_ROWGROUP'' \<mapsto> ''512''],
          mParms = [MAX_ROWS_PER_ROWGROUP \<mapsto>
                      Some (IntReadOnlyCV (VInt32 512) ''MAX_ROWS_PER_ROWGROUP''
                              ''Maximum number of rows per row group.''),
                    STRIDESIZE \<mapsto>
                      Some (IntReadOnlyCV (VInt16 512) ''STRIDE_SIZE''
                              ''Maximum stride size of a table''),
                    SHARED_FS_TYPE \<mapsto>
                      Some (StrReadOnlyCV ''alluxio'' ''SHARED_FS'' ''The file system type''),
                    CACHE_MEM_SZ \<mapsto>
                      Some (IntUpdatableCV (VInt64 0) ''CACHE_MEM_SZ''
                              ''Memory size of cache'')]\<rparr>"
  by (simp add: DatabaseConfig_def Make_IntReadOnlyCV_def Make_StrReadOnlyCV_def
      Make_IntUpdatableCV_def resolveVal_int_def resolveVal_str_def stoi_512)

lemmas eval_to_string = to_string_def digits_of.simps digit_char_def

lemma ClusterConfig_num_nodes_200:
  "ClusterConfig [''NUM_NODES'' \<mapsto> ''200''] =
     Inr \<lparr>mFactory = CVFactory [''NUM_NODES'' \<mapsto> ''200''],
          mParms = [NUM_NODES \<mapsto>
                      Some (IntReadOnlyCV (VInt8 200) ''NUM_NODES''
                              ''Number of nodes in the cluster.''),
                    ZK_TIMEOUT \<mapsto>
                      Some (IntReadOnlyCV (VInt64 10000) ''ZK_TIMEOUT''
                              ''Zookeeper timeout in milliseconds''),
                    QUORUM_WRITE \<mapsto>
                      Some (StrReadOnlyCV ''true'' ''QUORUM_WRITE'' ''Is quorum write set''),
                    INSERT_FLUSH \<mapsto>
                      Some (BoolReadOnlyCV True ''INSERT_FLUSH''
                              ''Does each insert flush?'')]\<rparr>"
  by (simp add: ClusterConfig_def Make_IntReadOnlyCV_def Make_StrReadOnlyCV_def
      Make_BoolReadOnlyCV_def resolveVal_int_def resolveVal_str_def resolveVal_bool_def
      stoi_def isspace_def isdigit_def digit_val_def)

lemma ClusterConfig_insert_flush_false:
  "ClusterConfig [''INSERT_FLUSH'' \<mapsto> ''false''] =
     Inr \<lparr>mFactory = CVFactory [''INSERT_FLUSH'' \<mapsto> ''false''],
          mParms = [NUM_NODES \<mapsto>
                      Some (IntReadOnlyCV (VInt8 3) ''NUM_NODES''
                              ''Number of nodes in the cluster.''),
                    ZK_TIMEOUT \<mapsto>
                      Some (IntReadOnlyCV (VInt64 10000) ''ZK_TIMEOUT''
                              ''Zookeeper timeout in milliseconds''),
                    QUORUM_WRITE \<mapsto>
                      Some (StrReadOnlyCV ''true'' ''QUORUM_WRITE'' ''Is quorum write set''),
                    INSERT_FLUSH \<mapsto>
                      Some (BoolReadOnlyCV False ''INSERT_FLUSH''
                              ''Does each insert flush?'')]\<rparr>"
  by (simp add: ClusterConfig_def Make_IntReadOnlyCV_def Make_StrReadOnlyCV_def
      Make_BoolReadOnlyCV_def resolveVal_int_def resolveVal_str_def resolveVal_bool_def
      strToBool_def eval_toupper)

text \<open>
  C1, as the claim states it, fails on the code: the override \<open>200\<close> for \<open>NUM_NODES\<close> is
  an integer literal that denotes 200, yet the value the factory builds for this 8-bit
  parameter holds the bits of 200, which denote -56, and the registry returns \<open>-56\<close> as text and -56 as a 64-bit
  integer.
\<close>

theorem override_integer_counterexample:
  "valid_integer_literal ''200'' \<and> literal_value ''200'' = 200
   \<and> Make_IntReadOnlyCV (CVFactory [''NUM_NODES'' \<mapsto> ''200'']) ''NUM_NODES'' (VInt8 3)
        ''Number of nodes in the cluster.''
      = Inr (IntReadOnlyCV (VInt8 200) ''NUM_NODES'' ''Number of nodes in the cluster.'')
   \<and> int_of_val (VInt8 200) = - 56
   \<and> fst (as_type TString NUM_NODES (projr (ClusterConfig [''NUM_NODES'' \<mapsto> ''200''])))
      = Inr (VString ''-56'')
   \<and> fst (as_type (TInteger Int64) NUM_NODES
            (projr (ClusterConfig [''NUM_NODES'' \<mapsto> ''200''])))
      = Inr (VInteger (VInt64 (- 56)))"
  by (simp add: valid_integer_literal_def literal_value_def isdigit_def digit_val_def
      Make_IntReadOnlyCV_def resolveVal_int_def stoi_def isspace_def
      ClusterConfig_num_nodes_200 as_type_present eval_to_string)

text \<open>
  C1, amended. When the override mapping has an entry for the parameter's declared name,
  the value the factory builds comes from the entry's text and the default plays no
  part. A text parameter holds the text as it is. A boolean parameter holds false when
  the text equals \<open>0\<close>, \<open>FALSE\<close> or \<open>OFF\<close> with case ignored, and true otherwise. An
  integer parameter, read-only or updatable, whose override is an integer literal in the
  32-bit signed range holds that number converted to the parameter's integer type: a
  value of that type that agrees with the number modulo two to the power of the type's
  width. The database registry built with the override \<open>MAX_ROWS_PER_ROWGROUP = 512\<close>
  over the default 10000 returns the text \<open>512\<close>, and the cluster registry built with
  \<open>INSERT_FLUSH = false\<close> over the default true returns the boolean false.
\<close>

theorem override_replaces_default:
  assumes "mOverrides f k = Some txt"
  shows "Make_StrReadOnlyCV f k defStr h = StrReadOnlyCV txt k h
    \<and> Make_BoolReadOnlyCV f k defBool h =
        BoolReadOnlyCV (\<not> (equal_ignoring_case txt ''0'' \<or> equal_ignoring_case txt ''FALSE''
                           \<or> equal_ignoring_case txt ''OFF'')) k h
    \<and> (valid_integer_literal txt \<and> - (2 ^ 31) \<le> literal_value txt
          \<and> literal_value txt < 2 ^ 31 \<longrightarrow>
        Make_IntReadOnlyCV f k defInt h =
          Inr (IntReadOnlyCV (from_int (type_of defInt) (literal_value txt)) k h)
        \<and> Make_IntUpdatableCV f k defInt h =
          Inr (IntUpdatableCV (from_int (type_of defInt) (literal_value txt)) k h)
        \<and> type_of (from_int (type_of defInt) (literal_value txt)) = type_of defInt
        \<and> int_of_val (from_int (type_of defInt) (literal_value txt)) mod 2 ^ bits (type_of defInt)
            = literal_value txt mod 2 ^ bits (type_of defInt))
    \<and> fst (as_type TString MAX_ROWS_PER_ROWGROUP
             (projr (DatabaseConfig [''MAX_ROWS_PER_ROWGROUP'' \<mapsto> ''512''])))
        = Inr (VString ''512'')
    \<and> fst (as_type TBool INSERT_FLUSH
             (projr (ClusterConfig [''INSERT_FLUSH'' \<mapsto> ''false''])))
        = Inr (VBoolean False)"
proof -
  have str: "Make_StrReadOnlyCV f k defStr h = StrReadOnlyCV txt k h"
    using assms by (simp add: Make_StrReadOnlyCV_def resolveVal_str_def)
  have bool: "Make_BoolReadOnlyCV f k defBool h =
        BoolReadOnlyCV (\<not> (equal_ignoring_case txt ''0'' \<or> equal_ignoring_case txt ''FALSE''
                           \<or> equal_ignoring_case txt ''OFF'')) k h"
    using assms strToBool_ignoring_case [of "txt"]
    by (simp add: Make_BoolReadOnlyCV_def resolveVal_bool_def)
  have num: "Make_IntReadOnlyCV f k defInt h =
          Inr (IntReadOnlyCV (from_int (type_of defInt) (literal_value txt)) k h)
        \<and> Make_IntUpdatableCV f k defInt h =
          Inr (IntUpdatableCV (from_int (type_of defInt) (literal_value txt)) k h)"
    if lit: "valid_integer_literal txt"
      and lo: "- (2 ^ 31) \<le> literal_value txt" and hi: "literal_value txt < 2 ^ 31"
  proof -
    have "stoi txt = Inr (word_of_int (literal_value txt))"
      using stoi_valid_integer_literal [OF lit] lo hi by simp
    moreover have "sint (word_of_int (literal_value txt) :: 32 word) = literal_value txt"
      using lo hi by (rule sint_word_of_int_32)
    ultimately have "resolveVal_int f k defInt =
        Inr (from_int (type_of defInt) (literal_value txt))"
      using assms by (simp add: resolveVal_int_def del: of_int_sint)
    then show ?thesis
      by (simp add: Make_IntReadOnlyCV_def Make_IntUpdatableCV_def)
  qed
  have db: "fst (as_type TString MAX_ROWS_PER_ROWGROUP
             (projr (DatabaseConfig [''MAX_ROWS_PER_ROWGROUP'' \<mapsto> ''512''])))
        = Inr (VString ''512'')"
    by (simp add: DatabaseConfig_max_rows_512 as_type_present eval_to_string)
  have cl: "fst (as_type TBool INSERT_FLUSH
             (projr (ClusterConfig [''INSERT_FLUSH'' \<mapsto> ''false''])))
        = Inr (VBoolean False)"
    by (simp add: ClusterConfig_insert_flush_false as_type_present)
  show ?thesis
    using str bool num db cl
    by (simp add: type_of_from_int int_of_val_from_int_mod)
qed

theorem override_replaces_default_witness:
  "mOverrides (CVFactory [''STRIDE_SIZE'' \<mapsto> ''-200'']) ''STRIDE_SIZE'' = Some ''-200''
   \<and> valid_integer_literal ''-200'' \<and> literal_value ''-200'' = - 200
   \<and> Make_IntReadOnlyCV (CVFactory [''STRIDE_SIZE'' \<mapsto> ''-200'']) ''STRIDE_SIZE'' (VInt16 512)
        ''Maximum stride size of a table''
      = Inr (IntReadOnlyCV (VInt16 (- 200)) ''STRIDE_SIZE'' ''Maximum stride size of a table'')
   \<and> Make_BoolReadOnlyCV (CVFactory [''STRIDE_SIZE'' \<mapsto> ''-200'']) ''STRIDE_SIZE'' False
        ''Maximum stride size of a table''
      = BoolReadOnlyCV True ''STRIDE_SIZE'' ''Maximum stride size of a table''"
proof -
  have hyps: "valid_integer_literal ''-200''" "literal_value ''-200'' = - 200"
    by (simp_all add: valid_integer_literal_def literal_value_def isdigit_def digit_val_def)
  show ?thesis
    using hyps override_replaces_default [of "CVFactory [''STRIDE_SIZE'' \<mapsto> ''-200'']"
      "''STRIDE_SIZE''" "''-200''" "''x''" "''Maximum stride size of a table''" False "VInt16 512"]
    by (simp add: equal_ignoring_case_def)
qed

text \<open>
  C2. With an empty override mapping every factory stores the default it is given,
  unchanged and without parsing anything, so the two registries of the example are
  built without error, hold their declared defaults, and every read of a parameter, as
  any type, is the coercion of that default and leaves the registry as it was. Read as
  text, the defaults are \<open>10000\<close>, \<open>512\<close>, \<open>alluxio\<close>, \<open>0\<close> in the database registry
  and \<open>3\<close>, \<open>10000\<close>, \<open>true\<close>, \<open>true\<close> in the cluster registry; read as boolean they
  are all true except the cache size 0, which is false; read as an integer type \<open>t\<close>
  the numeric and boolean defaults are 10000, 512, 0, 3, 10000 and 1 converted to \<open>t\<close>,
  and the two text defaults, which hold no digit, fail with \<open>InvalidArgument\<close>.
\<close>

theorem empty_overrides_keep_defaults:
  "Make_IntReadOnlyCV (CVFactory Map.empty) k defInt h = Inr (IntReadOnlyCV defInt k h)
   \<and> Make_IntUpdatableCV (CVFactory Map.empty) k defInt h = Inr (IntUpdatableCV defInt k h)
   \<and> Make_StrReadOnlyCV (CVFactory Map.empty) k defStr h = StrReadOnlyCV defStr k h
   \<and> Make_BoolReadOnlyCV (CVFactory Map.empty) k defBool h = BoolReadOnlyCV defBool k h
   \<and> as_type T MAX_ROWS_PER_ROWGROUP (projr (DatabaseConfig Map.empty)) =
       (convertToType (IntReadOnlyCV (VInt32 10000) ''MAX_ROWS_PER_ROWGROUP''
          ''Maximum number of rows per row group.'') T, projr (DatabaseConfig Map.empty))
   \<and> as_type T STRIDESIZE (projr (DatabaseConfig Map.empty)) =
       (convertToType (IntReadOnlyCV (VInt16 512) ''STRIDE_SIZE''
          ''Maximum stride size of a table'') T, projr (DatabaseConfig Map.empty))
   \<and> as_type T SHARED_FS_TYPE (projr (DatabaseConfig Map.empty)) =
       (convertToType (StrReadOnlyCV ''alluxio'' ''SHARED_FS'' ''The file system type'') T,
        projr (DatabaseConfig Map.empty))
   \<and> as_type T CACHE_MEM_SZ (projr (DatabaseConfig Map.empty)) =
       (convertToType (IntUpdatableCV (VInt64 0) ''CACHE_MEM_SZ'' ''Memory size of cache'') T,
        projr (DatabaseConfig Map.empty))
   \<and> as_type T NUM_NODES (projr (ClusterConfig Map.empty)) =
       (convertToType (IntReadOnlyCV (VInt8 3) ''NUM_NODES''
          ''Number of nodes in the cluster.'') T, projr (ClusterConfig Map.empty))
   \<and> as_type T ZK_TIMEOUT (projr (ClusterConfig Map.empty)) =
       (convertToType (IntReadOnlyCV (VInt64 10000) ''ZK_TIMEOUT''
          ''Zookeeper timeout in milliseconds'') T, projr (ClusterConfig Map.empty))
   \<and> as_type T QUORUM_WRITE (projr (ClusterConfig Map.empty)) =
       (convertToType (StrReadOnlyCV ''true'' ''QUORUM_WRITE'' ''Is quorum write set'') T,
        projr (ClusterConfig Map.empty))
   \<and> as_type T INSERT_FLUSH (projr (ClusterConfig Map.empty)) =
       (convertToType (BoolReadOnlyCV True ''INSERT_FLUSH'' ''Does each insert flush?'') T,
        projr (ClusterConfig Map.empty))
   \<and> isl (DatabaseConfig Map.empty) = False
   \<and> isl (ClusterConfig Map.empty) = False
   \<and> fst (as_type TString MAX_ROWS_PER_ROWGROUP (projr (DatabaseConfig Map.empty)))
       = Inr (VString ''10000'')
   \<and> fst (as_type TString STRIDESIZE (projr (DatabaseConfig Map.empty)))
       = Inr (VString ''512'')
   \<and> fst (as_type TString SHARED_FS_TYPE (projr (DatabaseConfig Map.empty)))
       = Inr (VString ''alluxio'')
   \<and> fst (as_type TString CACHE_MEM_SZ (projr (DatabaseConfig Map.empty)))
       = Inr (VString ''0'')
   \<and> fst (as_type TString NUM_NODES (projr (ClusterConfig Map.empty)))
       = Inr (VString ''3'')
   \<and> fst (as_type TString ZK_TIMEOUT (projr (ClusterConfig Map.empty)))
       = Inr (VString ''10000'')
   \<and> fst (as_type TString QUORUM_WRITE (projr (ClusterConfig Map.empty)))
       = Inr (VString ''true'')
   \<and> fst (as_type TString INSERT_FLUSH (projr (ClusterConfig Map.empty)))
       = Inr (VString ''true'')
   \<and> fst (as_type TBool MAX_ROWS_PER_ROWGROUP (projr (DatabaseConfig Map.empty)))
       = Inr (VBoolean True)
   \<and> fst (as_type TBool STRIDESIZE (projr (DatabaseConfig Map.empty)))
       = Inr (VBoolean True)
   \<and> fst (as_type TBool SHARED_FS_TYPE (projr (DatabaseConfig Map.empty)))
       = Inr (VBoolean True)
   \<and> fst (as_type TBool CACHE_MEM_SZ (projr (DatabaseConfig Map.empty)))
       = Inr (VBoolean False)
   \<and> fst (as_type TBool NUM_NODES (projr (ClusterConfig Map.empty)))
       = Inr (VBoolean True)
   \<and> fst (as_type TBool ZK_TIMEOUT (projr (ClusterConfig Map.empty)))
       = Inr (VBoolean True)
   \<and> fst (as_type TBool QUORUM_WRITE (projr (ClusterConfig Map.empty)))
       = Inr (VBoolean True)
   \<and> fst (as_type TBool INSERT_FLUSH (projr (ClusterConfig Map.empty)))
       = Inr (VBoolean True)
   \<and> fst (as_type (TInteger t) MAX_ROWS_PER_ROWGROUP (projr (DatabaseConfig Map.empty)))
       = Inr (VInteger (from_int t 10000))
   \<and> fst (as_type (TInteger t) STRIDESIZE (projr (DatabaseConfig Map.empty)))
       = Inr (VInteger (from_int t 512))
   \<and> fst (as_type (TInteger t) SHARED_FS_TYPE (projr (DatabaseConfig Map.empty)))
       = Inl InvalidArgument
   \<and> fst (as_type (TInteger t) CACHE_MEM_SZ (projr (DatabaseConfig Map.empty)))
       = Inr (VInteger (from_int t 0))
   \<and> fst (as_type (TInteger t) NUM_NODES (projr (ClusterConfig Map.empty)))
       = Inr (VInteger (from_int t 3))
   \<and> fst (as_type (TInteger t) ZK_TIMEOUT (projr (ClusterConfig Map.empty)))
       = Inr (VInteger (from_int t 10000))
   \<and> fst (as_type (TInteger t) QUORUM_WRITE (projr (ClusterConfig Map.empty)))
       = Inl InvalidArgument
   \<and> fst (as_type (TInteger t) INSERT_FLUSH (projr (ClusterConfig Map.empty)))
       = Inr (VInteger (from_int t 1))
   \<and> fst (as_type (TInteger Int32) STRIDESIZE (projr (DatabaseConfig Map.empty)))
       = Inr (VInteger (VInt32 512))
   \<and> fst (as_type (TInteger Int64) STRIDESIZE (projr (DatabaseConfig Map.empty)))
       = Inr (VInteger (VInt64 512))
   \<and> fst (as_type (TInteger UInt8) NUM_NODES (projr (ClusterConfig Map.empty)))
       = Inr (VInteger (VUInt8 3))
   \<and> fst (as_type (TInteger UInt64) NUM_NODES (projr (ClusterConfig Map.empty)))
       = Inr (VInteger (VUInt64 3))
   \<and> fst (as_type (TInteger UInt64) CACHE_MEM_SZ (projr (DatabaseConfig Map.empty)))
       = Inr (VInteger (VUInt64 0))
   \<and> fst (as_type (TInteger Int64) ZK_TIMEOUT (projr (ClusterConfig Map.empty)))
       = Inr (VInteger (VInt64 10000))
   \<and> fst (as_type (TInteger Int32) MAX_ROWS_PER_ROWGROUP (projr (DatabaseConfig Map.empty)))
       = Inr (VInteger (VInt32 10000))
   \<and> fst (as_type (TInteger UInt8) MAX_ROWS_PER_ROWGROUP (projr (DatabaseConfig Map.empty)))
       = Inr (VInteger (VUInt8 16))"
proof -
  have fac:
    "Make_IntReadOnlyCV (CVFactory Map.empty) k defInt h = Inr (IntReadOnlyCV defInt k h)"
    "Make_IntUpdatableCV (CVFactory Map.empty) k defInt h = Inr (IntUpdatableCV defInt k h)"
    "Make_StrReadOnlyCV (CVFactory Map.empty) k defStr h = StrReadOnlyCV defStr k h"
    "Make_BoolReadOnlyCV (CVFactory Map.empty) k defBool h = BoolReadOnlyCV defBool k h"
    by (simp_all add: Make_IntReadOnlyCV_def Make_IntUpdatableCV_def Make_StrReadOnlyCV_def
        Make_BoolReadOnlyCV_def resolveVal_int_def resolveVal_str_def resolveVal_bool_def)
  have db:
    "as_type T MAX_ROWS_PER_ROWGROUP (projr (DatabaseConfig Map.empty)) =
       (convertToType (IntReadOnlyCV (VInt32 10000) ''MAX_ROWS_PER_ROWGROUP''
          ''Maximum number of rows per row group.'') T, projr (DatabaseConfig Map.empty))"
    "as_type T STRIDESIZE (projr (DatabaseConfig Map.empty)) =
       (convertToType (IntReadOnlyCV (VInt16 512) ''STRIDE_SIZE''
          ''Maximum stride size of a table'') T, projr (DatabaseConfig Map.empty))"
    "as_type T SHARED_FS_TYPE (projr (DatabaseConfig Map.empty)) =
       (convertToType (StrReadOnlyCV ''alluxio'' ''SHARED_FS'' ''The file system type'') T,
        projr (DatabaseConfig Map.empty))"
    "as_type T CACHE_MEM_SZ (projr (DatabaseConfig Map.empty)) =
       (convertToType (IntUpdatableCV (VInt64 0) ''CACHE_MEM_SZ'' ''Memory size of cache'') T,
        projr (DatabaseConfig Map.empty))"
    "isl (DatabaseConfig Map.empty) = False" for T
    by (simp_all add: DatabaseConfig_empty as_type_present)
  have cl:
    "as_type T NUM_NODES (projr (ClusterConfig Map.empty)) =
       (convertToType (IntReadOnlyCV (VInt8 3) ''NUM_NODES''
          ''Number of nodes in the cluster.'') T, projr (ClusterConfig Map.empty))"
    "as_type T ZK_TIMEOUT (projr (ClusterConfig Map.empty)) =
       (convertToType (IntReadOnlyCV (VInt64 10000) ''ZK_TIMEOUT''
          ''Zookeeper timeout in milliseconds'') T, projr (ClusterConfig Map.empty))"
    "as_type T QUORUM_WRITE (projr (ClusterConfig Map.empty)) =
       (convertToType (StrReadOnlyCV ''true'' ''QUORUM_WRITE'' ''Is quorum write set'') T,
        projr (ClusterConfig Map.empty))"
    "as_type T INSERT_FLUSH (projr (ClusterConfig Map.empty)) =
       (convertToType (BoolReadOnlyCV True ''INSERT_FLUSH'' ''Does each insert flush?'') T,
        projr (ClusterConfig Map.empty))"
    "isl (ClusterConfig Map.empty) = False" for T
    by (simp_all add: ClusterConfig_empty as_type_present)
  have as_text:
    "fst (as_type TString MAX_ROWS_PER_ROWGROUP (projr (DatabaseConfig Map.empty)))
       = Inr (VString ''10000'')"
    "fst (as_type TString STRIDESIZE (projr (DatabaseConfig Map.empty)))
       = Inr (VString ''512'')"
    "fst (as_type TString SHARED_FS_TYPE (projr (DatabaseConfig Map.empty)))
       = Inr (VString ''alluxio'')"
    "fst (as_type TString CACHE_MEM_SZ (projr (DatabaseConfig Map.empty)))
       = Inr (VString ''0'')"
    "fst (as_type TString NUM_NODES (projr (ClusterConfig Map.empty)))
       = Inr (VString ''3'')"
    "fst (as_type TString ZK_TIMEOUT (projr (ClusterConfig Map.empty)))
       = Inr (VString ''10000'')"
    "fst (as_type TString QUORUM_WRITE (projr (ClusterConfig Map.empty)))
       = Inr (VString ''true'')"
    "fst (as_type TString INSERT_FLUSH (projr (ClusterConfig Map.empty)))
       = Inr (VString ''true'')"
    by (simp_all add: db cl eval_to_string)
  have as_bool:
    "fst (as_type TBool MAX_ROWS_PER_ROWGROUP (projr (DatabaseConfig Map.empty)))
       = Inr (VBoolean True)"
    "fst (as_type TBool STRIDESIZE (projr (DatabaseConfig Map.empty)))
       = Inr (VBoolean True)"
    "fst (as_type TBool SHARED_FS_TYPE (projr (DatabaseConfig Map.empty)))
       = Inr (VBoolean True)"
    "fst (as_type TBool CACHE_MEM_SZ (projr (DatabaseConfig Map.empty)))
       = Inr (VBoolean False)"
    "fst (as_type TBool NUM_NODES (projr (ClusterConfig Map.empty)))
       = Inr (VBoolean True)"
    "fst (as_type TBool ZK_TIMEOUT (projr (ClusterConfig Map.empty)))
       = Inr (VBoolean True)"
    "fst (as_type TBool QUORUM_WRITE (projr (ClusterConfig Map.empty)))
       = Inr (VBoolean True)"
    "fst (as_type TBool INSERT_FLUSH (projr (ClusterConfig Map.empty)))
       = Inr (VBoolean True)"
    by (simp_all add: db cl strToBool_def eval_toupper)
  have as_int:
    "fst (as_type (TInteger t) MAX_ROWS_PER_ROWGROUP (projr (DatabaseConfig Map.empty)))
       = Inr (VInteger (from_int t 10000))"
    "fst (as_type (TInteger t) STRIDESIZE (projr (DatabaseConfig Map.empty)))
       = Inr (VInteger (from_int t 512))"
    "fst (as_type (TInteger t) SHARED_FS_TYPE (projr (DatabaseConfig Map.empty)))
       = Inl InvalidArgument"
    "fst (as_type (TInteger t) CACHE_MEM_SZ (projr (DatabaseConfig Map.empty)))
       = Inr (VInteger (from_int t 0))"
    "fst (as_type (TInteger t) NUM_NODES (projr (ClusterConfig Map.empty)))
       = Inr (VInteger (from_int t 3))"
    "fst (as_type (TInteger t) ZK_TIMEOUT (projr (ClusterConfig Map.empty)))
       = Inr (VInteger (from_int t 10000))"
    "fst (as_type (TInteger t) QUORUM_WRITE (projr (ClusterConfig Map.empty)))
       = Inl InvalidArgument"
    "fst (as_type (TInteger t) INSERT_FLUSH (projr (ClusterConfig Map.empty)))
       = Inr (VInteger (from_int t 1))" for t
    by (simp_all add: db cl stoi_def isspace_def isdigit_def)
  have sized:
    "fst (as_type (TInteger Int32) STRIDESIZE (projr (DatabaseConfig Map.empty)))
       = Inr (VInteger (VInt32 512))"
    "fst (as_type (TInteger Int64) STRIDESIZE (projr (DatabaseConfig Map.empty)))
       = Inr (VInteger (VInt64 512))"
    "fst (as_type (TInteger UInt8) NUM_NODES (projr (ClusterConfig Map.empty)))
       = Inr (VInteger (VUInt8 3))"
    "fst (as_type (TInteger UInt64) NUM_NODES (projr (ClusterConfig Map.empty)))
       = Inr (VInteger (VUInt64 3))"
    "fst (as_type (TInteger UInt64) CACHE_MEM_SZ (projr (DatabaseConfig Map.empty)))
       = Inr (VInteger (VUInt64 0))"
    "fst (as_type (TInteger Int64) ZK_TIMEOUT (projr (ClusterConfig Map.empty)))
       = Inr (VInteger (VInt64 10000))"
    "fst (as_type (TInteger Int32) MAX_ROWS_PER_ROWGROUP (projr (DatabaseConfig Map.empty)))
       = Inr (VInteger (VInt32 10000))"
    "fst (as_type (TInteger UInt8) MAX_ROWS_PER_ROWGROUP (projr (DatabaseConfig Map.empty)))
       = Inr (VInteger (VUInt8 16))"
    by (simp_all add: as_int)
  show ?thesis
    by (intro conjI fac db cl as_text as_bool as_int sized)
qed

subsection \<open>Updating an integer parameter\<close>

text \<open>
  C4, as the claim states it, fails on the code: \<open>5000000000\<close> is a valid integer text
  and fits the 64-bit parameter \<open>CACHE_MEM_SZ\<close>, yet \<open>set\<close> fails with \<open>OutOfRange\<close>,
  the registry is unchanged and a read as unsigned 64-bit still returns the old value 0.
\<close>

theorem set_updatable_counterexample:
  "valid_integer_literal ''5000000000''
   \<and> set_parm CACHE_MEM_SZ ''5000000000'' (projr (DatabaseConfig Map.empty))
       = (Inl OutOfRange, projr (DatabaseConfig Map.empty))
   \<and> fst (as_type (TInteger UInt64) CACHE_MEM_SZ
            (snd (set_parm CACHE_MEM_SZ ''5000000000'' (projr (DatabaseConfig Map.empty)))))
       = Inr (VInteger (VUInt64 0))"
  by (simp add: valid_integer_literal_def isdigit_def DatabaseConfig_empty set_parm_def
      subscript_present stoi_5000000000 as_type_present)

text \<open>
  C4, amended. On an updatable integer parameter, \<open>set\<close> with a valid integer text whose
  number lies in the 32-bit signed range succeeds and replaces the stored value by that
  number converted to the parameter's integer type; every read after it is the coercion
  of the new value, so the previous value is no longer observable. On the updatable
  parameter that defaults to 0, \<open>set\<close> with \<open>4096000\<close> followed by a read as unsigned
  64-bit returns 4096000.
\<close>

theorem set_updatable_replaces:
  assumes "mParms cfg parm = Some (Some (IntUpdatableCV v k h))"
    and "valid_integer_literal txt"
    and "- (2 ^ 31) \<le> literal_value txt" and "literal_value txt < 2 ^ 31"
  shows "set_parm parm txt cfg =
      (Inr (), cfg\<lparr>mParms := (mParms cfg)(parm \<mapsto>
         Some (IntUpdatableCV (from_int (type_of v) (literal_value txt)) k h))\<rparr>)
    \<and> as_type T parm (snd (set_parm parm txt cfg)) =
      (convertToType (IntUpdatableCV (from_int (type_of v) (literal_value txt)) k h) T,
       snd (set_parm parm txt cfg))
    \<and> fst (as_type (TInteger t) parm (snd (set_parm parm txt cfg))) =
      Inr (VInteger (from_int t (int_of_val (from_int (type_of v) (literal_value txt)))))
    \<and> fst (as_type (TInteger UInt64) CACHE_MEM_SZ
            (snd (set_parm CACHE_MEM_SZ ''4096000'' (projr (DatabaseConfig Map.empty)))))
       = Inr (VInteger (VUInt64 4096000))"
proof -
  let ?new = "IntUpdatableCV (from_int (type_of v) (literal_value txt)) k h"
  have "stoi txt = Inr (word_of_int (literal_value txt))"
    using stoi_valid_integer_literal [OF assms(2)] assms(3,4) by simp
  moreover have "sint (word_of_int (literal_value txt) :: 32 word) = literal_value txt"
    using assms(3,4) by (rule sint_word_of_int_32)
  ultimately have "set_cv (IntUpdatableCV v k h) txt = Inr ?new"
    by (simp del: of_int_sint)
  then have upd: "set_parm parm txt cfg = (Inr (), cfg\<lparr>mParms := (mParms cfg)(parm \<mapsto> Some ?new)\<rparr>)"
    using assms(1) by (simp add: set_parm_def subscript_present del: set_cv.simps)
  then have get: "as_type T parm (snd (set_parm parm txt cfg)) =
      (convertToType ?new T, snd (set_parm parm txt cfg))" for T
    by (simp add: as_type_present)
  have int: "fst (as_type (TInteger t) parm (snd (set_parm parm txt cfg))) =
      Inr (VInteger (from_int t (int_of_val (from_int (type_of v) (literal_value txt)))))"
    unfolding get using from_int_via_int64 [of t "int_of_val (from_int (type_of v) (literal_value txt))"]
    by simp
  have ex: "fst (as_type (TInteger UInt64) CACHE_MEM_SZ
            (snd (set_parm CACHE_MEM_SZ ''4096000'' (projr (DatabaseConfig Map.empty)))))
       = Inr (VInteger (VUInt64 4096000))"
    by (simp add: DatabaseConfig_empty set_parm_def subscript_present stoi_4096000 as_type_present)
  show ?thesis
    using upd get int ex by simp
qed

theorem set_updatable_replaces_witness:
  "valid_integer_literal ''-42'' \<and> literal_value ''-42'' = - 42
   \<and> set_parm CACHE_MEM_SZ ''-42''
       \<lparr>mFactory = CVFactory Map.empty,
        mParms = [CACHE_MEM_SZ \<mapsto>
          Some (IntUpdatableCV (VInt64 7) ''CACHE_MEM_SZ'' ''Memory size of cache'')]\<rparr>
     = (Inr (),
        \<lparr>mFactory = CVFactory Map.empty,
         mParms = [CACHE_MEM_SZ \<mapsto>
           Some (IntUpdatableCV (VInt64 (- 42)) ''CACHE_MEM_SZ'' ''Memory size of cache'')]\<rparr>)"
proof -
  have hyps: "valid_integer_literal ''-42''" "literal_value ''-42'' = - 42"
    by (simp_all add: valid_integer_literal_def literal_value_def isdigit_def digit_val_def)
  show ?thesis
    using hyps set_updatable_replaces [of
      "\<lparr>mFactory = CVFactory Map.empty,
        mParms = [CACHE_MEM_SZ \<mapsto>
          Some (IntUpdatableCV (VInt64 7) ''CACHE_MEM_SZ'' ''Memory size of cache'')]\<rparr>"
      CACHE_MEM_SZ "VInt64 7" "''CACHE_MEM_SZ''" "''Memory size of cache''" "''-42''" TString Int64]
    by simp
qed

end
